theory Spec2Isabelle
  imports Complex_Main "HOL-Library.AList"
begin

section \<open>Loan Tracker API: values, documents and exceptions\<close>

text \<open>
  The development embeds \<^verbatim>\<open>schemas.py\<close> (the \<^verbatim>\<open>Loan\<close> model) and the
  \<^verbatim>\<open>create_loan\<close> endpoint of \<^verbatim>\<open>main.py\<close>.
\<close>

subsection \<open>Python floats\<close>

text \<open>
  A Python \<^verbatim>\<open>float\<close> is an IEEE 754 binary64 number: a finite value, one of the
  two infinities or a NaN. \<open>Fin q\<close> is the finite float of value \<open>q\<close>, with \<open>Fin 0\<close>
  the positive zero; \<open>NZero\<close> is the negative zero. Every binary64 number is a value
  of this type, and every operation below returns a binary64 number on binary64
  arguments, since it rounds what it computes.
\<close>

datatype float64 = Fin rat | NZero | PInf | NInf | NaN

fun is_nan :: "float64 \<Rightarrow> bool" where
  "is_nan NaN = True"
| "is_nan _ = False"

fun is_inf :: "float64 \<Rightarrow> bool" where
  "is_inf PInf = True"
| "is_inf NInf = True"
| "is_inf _ = False"

fun is_zero :: "float64 \<Rightarrow> bool" where
  "is_zero (Fin q) = (q = 0)"
| "is_zero NZero = True"
| "is_zero _ = False"

fun is_finite :: "float64 \<Rightarrow> bool" where
  "is_finite (Fin q) = True"
| "is_finite NZero = True"
| "is_finite _ = False"

fun signbit :: "float64 \<Rightarrow> bool" where
  "signbit (Fin q) = (q < 0)"
| "signbit NZero = True"
| "signbit NInf = True"
| "signbit _ = False"

fun fval :: "float64 \<Rightarrow> rat" where
  "fval (Fin q) = q"
| "fval _ = 0"

text \<open>\<^verbatim>\<open>x > 0\<close> and \<^verbatim>\<open>x >= 0\<close>: false for a NaN, and \<^verbatim>\<open>-0.0 >= 0\<close> holds.\<close>

fun fgt0 :: "float64 \<Rightarrow> bool" where
  "fgt0 (Fin q) = (0 < q)"
| "fgt0 PInf = True"
| "fgt0 _ = False"

fun fge0 :: "float64 \<Rightarrow> bool" where
  "fge0 (Fin q) = (0 \<le> q)"
| "fge0 NZero = True"
| "fge0 PInf = True"
| "fge0 _ = False"

text \<open>
  Two floats are the same number when they are the same value of the type or are both
  zeros: Python's \<^verbatim>\<open>==\<close>, but for a NaN, which is here the same as itself.
\<close>

definition same_float :: "float64 \<Rightarrow> float64 \<Rightarrow> bool" where
  "same_float x y = (x = y \<or> (is_zero x \<and> is_zero y))"

text \<open>The number of binary digits of a natural number, and the powers of two.\<close>

fun bits :: "nat \<Rightarrow> nat" where
  "bits n = (if n = 0 then 0 else Suc (bits (n div 2)))"

declare bits.simps [simp del]

definition pow2 :: "int \<Rightarrow> rat" where
  "pow2 e = (if 0 \<le> e then 2 ^ nat e else 1 / 2 ^ nat (- e))"

text \<open>For \<open>0 < a\<close>, the exponent \<open>e\<close> with \<open>2 ^ e \<le> a < 2 ^ (e + 1)\<close>.\<close>

definition floor_log2 :: "rat \<Rightarrow> int" where
  "floor_log2 a =
     (let e0 = (if 1 \<le> a then int (bits (nat \<lfloor>a\<rfloor>)) - 1
                else 1 - int (bits (nat \<lfloor>1 / a\<rfloor>)))
      in if pow2 e0 \<le> a then e0 else e0 - 1)"

text \<open>The nearest integer, a tie going to the even one.\<close>

definition rne :: "rat \<Rightarrow> int" where
  "rne x =
     (let n = \<lfloor>x\<rfloor>; f = x - of_int n
      in if f < 1 / 2 then n
         else if 1 / 2 < f then n + 1
         else if even n then n else n + 1)"

text \<open>
  The binary64 number nearest to a rational (round to nearest, ties to even): 53
  significant bits, the exponent of the unit in the last place no less than -1074,
  a zero of the sign of \<open>q\<close> on underflow and an infinity from \<open>2 ^ 1024\<close> on.
\<close>

definition round_binary64 :: "rat \<Rightarrow> float64" where
  "round_binary64 q =
     (if q = 0 then Fin 0
      else (let a = \<bar>q\<bar>;
                e = max (floor_log2 a) (- 1022);
                ulp = pow2 (e - 52);
                n = rne (a / ulp)
            in if 1024 \<le> e \<or> (e = 1023 \<and> 2 ^ 53 \<le> n) then (if q < 0 then NInf else PInf)
               else if n = 0 then (if q < 0 then NZero else Fin 0)
               else Fin ((if q < 0 then - 1 else 1) * of_int n * ulp)))"

text \<open>\<^verbatim>\<open>x * y\<close> on floats.\<close>

definition fmul :: "float64 \<Rightarrow> float64 \<Rightarrow> float64" where
  "fmul x y =
     (if is_nan x \<or> is_nan y then NaN
      else if is_inf x \<or> is_inf y
           then (if is_zero x \<or> is_zero y then NaN
                 else if signbit x \<noteq> signbit y then NInf else PInf)
      else if is_zero x \<or> is_zero y
           then (if signbit x \<noteq> signbit y then NZero else Fin 0)
      else round_binary64 (fval x * fval y))"

text \<open>\<^verbatim>\<open>x / 100.0\<close> on floats.\<close>

definition fdiv100 :: "float64 \<Rightarrow> float64" where
  "fdiv100 x =
     (if is_nan x \<or> is_inf x then x
      else if is_zero x then (if signbit x then NZero else Fin 0)
      else round_binary64 (fval x / 100))"

text \<open>
  \<^verbatim>\<open>round(x, 2)\<close>: a NaN, an infinity and a zero are returned as they are; a finite
  \<open>x\<close> is rounded to the nearest multiple of one hundredth of its exact value, a tie
  going to the even one, and the decimal result is converted back to a float.
\<close>

definition py_round2 :: "float64 \<Rightarrow> float64" where
  "py_round2 x =
     (if is_nan x \<or> is_inf x then x
      else if is_zero x then (if signbit x then NZero else Fin 0)
      else (let n = rne (fval x * 100)
            in if n = 0 then (if signbit x then NZero else Fin 0)
               else round_binary64 (of_int n / 100)))"

subsection \<open>Values and documents\<close>

text \<open>
  Python values that occur in a loan payload or in a stored document. A
  \<^verbatim>\<open>datetime.date\<close> is a year, a month and a day. \<open>'o\<close> is the type of
  \<^verbatim>\<open>bson.ObjectId\<close> values.
\<close>

datatype date = Date nat nat nat

datatype 'o pyval = VNone | VStr string | VFloat float64 | VDate date | VId 'o

text \<open>A document (a Python \<^verbatim>\<open>dict\<close> with string keys) is an association list.\<close>

type_synonym 'o doc = "(string \<times> 'o pyval) list"

text \<open>\<^verbatim>\<open>d.get(k)\<close>: the value, or \<^verbatim>\<open>None\<close> for a missing key.\<close>

definition dict_get :: "'o doc \<Rightarrow> string \<Rightarrow> 'o pyval" where
  "dict_get d k = (case map_of d k of None \<Rightarrow> VNone | Some v \<Rightarrow> v)"

text \<open>Python truthiness (\<^verbatim>\<open>bool(v)\<close>) of the values above.\<close>

fun truthy :: "'o pyval \<Rightarrow> bool" where
  "truthy VNone = False"
| "truthy (VStr s) = (s \<noteq> [])"
| "truthy (VFloat x) = (\<not> is_zero x)"
| "truthy (VDate d) = True"
| "truthy (VId i) = True"

text \<open>
  The exceptions that the endpoint can meet. \<open>HTTPException code detail\<close> is FastAPI's;
  \<open>RequestValidationError fields\<close> is what FastAPI raises when the body does not validate
  against the Pydantic model (the list names the offending fields); \<open>InvalidId\<close> is
  \<^verbatim>\<open>bson.errors.InvalidId\<close>; \<open>StoreError\<close> stands for any failure of a database call.
\<close>

datatype exn =
    HTTPException nat string
  | RequestValidationError "string list"
  | InvalidId
  | TypeError
  | ValueError
  | KeyError
  | StoreError

text \<open>The HTTP status that FastAPI answers with: 200, the exception's own code, 422 or 500.\<close>

fun status_code :: "exn + 'a \<Rightarrow> nat" where
  "status_code (Inr _) = 200"
| "status_code (Inl (HTTPException code _)) = code"
| "status_code (Inl (RequestValidationError _)) = 422"
| "status_code (Inl _) = 500"

text \<open>
  \<^verbatim>\<open>try: body  except Exception: raise handler\<close>. Every exception of the body is
  caught, \<^verbatim>\<open>HTTPException\<close> included, since it derives from \<^verbatim>\<open>Exception\<close>.
\<close>

definition try_except :: "exn + 'a \<Rightarrow> exn \<Rightarrow> exn + 'a" where
  "try_except body handler = (case body of Inl _ \<Rightarrow> Inl handler | Inr x \<Rightarrow> Inr x)"

section \<open>schemas.py: the Loan model\<close>

datatype status = Applied | Approved | Funded | Rejected | Closed

fun status_str :: "status \<Rightarrow> string" where
  "status_str Applied = ''applied''"
| "status_str Approved = ''approved''"
| "status_str Funded = ''funded''"
| "status_str Rejected = ''rejected''"
| "status_str Closed = ''closed''"

definition parse_status :: "string \<Rightarrow> status option" where
  "parse_status s =
     (if s = ''applied'' then Some Applied
      else if s = ''approved'' then Some Approved
      else if s = ''funded'' then Some Funded
      else if s = ''rejected'' then Some Rejected
      else if s = ''closed'' then Some Closed
      else None)"

text \<open>A validated \<^verbatim>\<open>Loan\<close> (\<^verbatim>\<open>LoanCreate\<close>) instance.\<close>

record Loan =
  customer_id :: string
  partner_id :: "string option"
  amount :: float64
  status :: status
  application_date :: "date option"
  funded_date :: "date option"
  commission_amount :: "float64 option"

text \<open>
  The request body, with each field already of its JSON type; \<open>None\<close> is a field that is
  missing (or \<^verbatim>\<open>null\<close>, for the \<^verbatim>\<open>Optional\<close> fields).
\<close>

record raw_loan =
  raw_customer_id :: "string option"
  raw_partner_id :: "string option"
  raw_amount :: "float64 option"
  raw_status :: "string option"
  raw_application_date :: "date option"
  raw_funded_date :: "date option"
  raw_commission_amount :: "float64 option"

text \<open>
  The constraints that the \<^verbatim>\<open>Field\<close> declarations of \<^verbatim>\<open>Loan\<close> put on a body:
  \<^verbatim>\<open>customer_id\<close> and \<^verbatim>\<open>amount\<close> are required, \<^verbatim>\<open>amount\<close> has \<^verbatim>\<open>gt=0\<close>,
  \<^verbatim>\<open>status\<close> is one of the five literals, \<^verbatim>\<open>commission_amount\<close> has \<^verbatim>\<open>ge=0\<close>.
\<close>

definition field_errors :: "raw_loan \<Rightarrow> string list" where
  "field_errors raw =
     (case raw_customer_id raw of None \<Rightarrow> [''customer_id''] | Some _ \<Rightarrow> []) @
     (case raw_amount raw of None \<Rightarrow> [''amount'']
        | Some a \<Rightarrow> if fgt0 a then [] else [''amount'']) @
     (case raw_status raw of None \<Rightarrow> []
        | Some s \<Rightarrow> if parse_status s = None then [''status''] else []) @
     (case raw_commission_amount raw of None \<Rightarrow> []
        | Some c \<Rightarrow> if fge0 c then [] else [''commission_amount''])"

definition validate_loan :: "raw_loan \<Rightarrow> exn + Loan" where
  "validate_loan raw =
     (case (field_errors raw, raw_customer_id raw, raw_amount raw) of
        ([], Some c, Some a) \<Rightarrow>
          Inr \<lparr> customer_id = c,
                partner_id = raw_partner_id raw,
                amount = a,
                status = (case raw_status raw of None \<Rightarrow> Applied
                            | Some s \<Rightarrow> (case parse_status s of None \<Rightarrow> Applied | Some st \<Rightarrow> st)),
                application_date = raw_application_date raw,
                funded_date = raw_funded_date raw,
                commission_amount = raw_commission_amount raw \<rparr>
      | (errs, _, _) \<Rightarrow> Inl (RequestValidationError errs))"

text \<open>\<^verbatim>\<open>payload.model_dump()\<close>: every field, the absent optional ones as \<^verbatim>\<open>None\<close>.\<close>

definition opt_val :: "('a \<Rightarrow> 'o pyval) \<Rightarrow> 'a option \<Rightarrow> 'o pyval" where
  "opt_val f x = (case x of None \<Rightarrow> VNone | Some y \<Rightarrow> f y)"

definition model_dump :: "Loan \<Rightarrow> 'o doc" where
  "model_dump payload =
     [(''customer_id'', VStr (customer_id payload)),
      (''partner_id'', opt_val VStr (partner_id payload)),
      (''amount'', VFloat (amount payload)),
      (''status'', VStr (status_str (status payload))),
      (''application_date'', opt_val VDate (application_date payload)),
      (''funded_date'', opt_val VDate (funded_date payload)),
      (''commission_amount'', opt_val VFloat (commission_amount payload))]"

section \<open>The document store\<close>

text \<open>
  The database handle \<^verbatim>\<open>db\<close>: the collections by name, each a list of documents in
  insertion order, every document carrying its \<^verbatim>\<open>_id\<close>. \<open>reachable\<close> is false when a
  call on the handle raises (the handle is \<^verbatim>\<open>None\<close>, or the server does not answer).
\<close>

record 'o database =
  reachable :: bool
  colls :: "string \<Rightarrow> 'o doc list"

text \<open>\<^verbatim>\<open>db.<name>.find_one({"_id": oid})\<close>.\<close>

definition find_one :: "'o database \<Rightarrow> string \<Rightarrow> 'o \<Rightarrow> exn + 'o doc option" where
  "find_one db name oid =
     (if reachable db
      then Inr (List.find (\<lambda>d. map_of d ''_id'' = Some (VId oid)) (colls db name))
      else Inl StoreError)"

text \<open>
  What the endpoint takes from outside the repository: the parser of
  \<^verbatim>\<open>bson.ObjectId(str)\<close> (\<open>None\<close> when it raises \<^verbatim>\<open>InvalidId\<close>), the rendering
  \<^verbatim>\<open>str(oid)\<close>, the identifier that the store assigns to the next document of a
  collection, the value of \<^verbatim>\<open>datetime.utcnow().date()\<close> and the parser of
  \<^verbatim>\<open>float(str)\<close> (\<open>None\<close> when it raises \<^verbatim>\<open>ValueError\<close>).
\<close>

record 'o env =
  ObjectId :: "string \<Rightarrow> 'o option"
  str_oid :: "'o \<Rightarrow> string"
  new_oid :: "'o doc list \<Rightarrow> 'o"
  utcnow_date :: date
  float_of_str :: "string \<Rightarrow> float64 option"

text \<open>\<^verbatim>\<open>ObjectId(v)\<close> on a value: a string is parsed, an identifier is copied.\<close>

fun ObjectId_of :: "'o env \<Rightarrow> 'o pyval \<Rightarrow> exn + 'o" where
  "ObjectId_of env (VStr s) = (case ObjectId env s of None \<Rightarrow> Inl InvalidId | Some oid \<Rightarrow> Inr oid)"
| "ObjectId_of env (VId oid) = Inr oid"
| "ObjectId_of env _ = Inl TypeError"

text \<open>\<^verbatim>\<open>float(v)\<close> on a value.\<close>

fun py_float :: "'o env \<Rightarrow> 'o pyval \<Rightarrow> exn + float64" where
  "py_float env (VFloat x) = Inr x"
| "py_float env (VStr s) = (case float_of_str env s of None \<Rightarrow> Inl ValueError | Some x \<Rightarrow> Inr x)"
| "py_float env _ = Inl TypeError"

text \<open>
  Modelled from the spec: \<^verbatim>\<open>database.create_document\<close>, of the module
  \<^verbatim>\<open>database.py\<close> that \<^verbatim>\<open>main.py\<close> imports. Section 4.1: it "inserts a record,
  returns its newly assigned unique identifier" and "fails with StoreError if the
  underlying store is unreachable".
\<close>

definition create_document ::
  "'o env \<Rightarrow> string \<Rightarrow> 'o doc \<Rightarrow> 'o database \<Rightarrow> (exn + string) \<times> 'o database" where
  "create_document env name data db =
     (if reachable db
      then (let oid = new_oid env (colls db name)
            in (Inr (str_oid env oid),
                db\<lparr>colls := (colls db)(name := colls db name @ [AList.update ''_id'' (VId oid) data])\<rparr>))
      else (Inl StoreError, db))"

section \<open>main.py: create_loan\<close>

text \<open>Lines 86 to 92: the check of \<^verbatim>\<open>customer_id\<close>.\<close>

definition check_customer :: "'o env \<Rightarrow> 'o database \<Rightarrow> Loan \<Rightarrow> exn + unit" where
  "check_customer env db payload =
     (if customer_id payload \<noteq> []
      then try_except
             (case ObjectId_of env (VStr (customer_id payload)) of
                Inl e \<Rightarrow> Inl e
              | Inr oid \<Rightarrow>
                  (case find_one db ''customer'' oid of
                     Inl e \<Rightarrow> Inl e
                   | Inr customer \<Rightarrow>
                       if customer = None \<or> customer = Some []
                       then Inl (HTTPException 400 ''Invalid customer_id'')
                       else Inr ()))
             (HTTPException 400 ''Invalid customer_id format'')
      else Inr ())"

text \<open>Lines 93 to 99: the check of \<^verbatim>\<open>partner_id\<close>.\<close>

definition check_partner :: "'o env \<Rightarrow> 'o database \<Rightarrow> Loan \<Rightarrow> exn + unit" where
  "check_partner env db payload =
     (case partner_id payload of
        None \<Rightarrow> Inr ()
      | Some pid \<Rightarrow>
          if pid \<noteq> []
          then try_except
                 (case ObjectId_of env (VStr pid) of
                    Inl e \<Rightarrow> Inl e
                  | Inr oid \<Rightarrow>
                      (case find_one db ''partner'' oid of
                         Inl e \<Rightarrow> Inl e
                       | Inr partner \<Rightarrow>
                           if partner = None \<or> partner = Some []
                           then Inl (HTTPException 400 ''Invalid partner_id'')
                           else Inr ()))
                 (HTTPException 400 ''Invalid partner_id format'')
          else Inr ())"

text \<open>
  Lines 105 to 109: the rate is 0.0, unless \<^verbatim>\<open>data\<close> has a truthy
  \<^verbatim>\<open>partner_id\<close> whose document is found and has a \<^verbatim>\<open>commission_rate\<close>; then it is
  \<^verbatim>\<open>float(p["commission_rate"]) or 0.0\<close>.
\<close>

definition fetch_rate :: "'o env \<Rightarrow> 'o database \<Rightarrow> 'o doc \<Rightarrow> exn + float64" where
  "fetch_rate env db data =
     (if truthy (dict_get data ''partner_id'')
      then (case ObjectId_of env (dict_get data ''partner_id'') of
              Inl e \<Rightarrow> Inl e
            | Inr oid \<Rightarrow>
                (case find_one db ''partner'' oid of
                   Inl e \<Rightarrow> Inl e
                 | Inr None \<Rightarrow> Inr (Fin 0)
                 | Inr (Some p) \<Rightarrow>
                     if p \<noteq> [] \<and> map_of p ''commission_rate'' \<noteq> None
                     then (case py_float env (dict_get p ''commission_rate'') of
                             Inl e \<Rightarrow> Inl e
                           | Inr r \<Rightarrow> Inr (if \<not> is_zero r then r else Fin 0))
                     else Inr (Fin 0)))
      else Inr (Fin 0))"

text \<open>Lines 104 to 113: the body of \<^verbatim>\<open>if data.get("status") == "funded"\<close>.\<close>

definition funded_block :: "'o env \<Rightarrow> 'o database \<Rightarrow> 'o doc \<Rightarrow> exn + 'o doc" where
  "funded_block env db data =
     (case fetch_rate env db data of
        Inl e \<Rightarrow> Inl e
      | Inr rate \<Rightarrow>
          (case map_of data ''amount'' of
             None \<Rightarrow> Inl KeyError
           | Some (VFloat a) \<Rightarrow>
               (let commission = py_round2 (fdiv100 (fmul a rate));
                    data1 = AList.update ''commission_amount'' (VFloat commission) data
                in Inr (if \<not> truthy (dict_get data1 ''funded_date'')
                        then AList.update ''funded_date'' (VDate (utcnow_date env)) data1
                        else data1))
           | Some _ \<Rightarrow> Inl TypeError))"

text \<open>
  The whole function. It returns the identifier of \<^verbatim>\<open>{"id": loan_id}\<close> or the
  exception that it raises, and the database after the call.
\<close>

definition create_loan ::
  "'o env \<Rightarrow> Loan \<Rightarrow> 'o database \<Rightarrow> (exn + string) \<times> 'o database" where
  "create_loan env payload db =
     (case check_customer env db payload of
        Inl e \<Rightarrow> (Inl e, db)
      | Inr _ \<Rightarrow>
          (case check_partner env db payload of
             Inl e \<Rightarrow> (Inl e, db)
           | Inr _ \<Rightarrow>
               (let data = model_dump payload
                in case (if dict_get data ''status'' = VStr ''funded''
                         then funded_block env db data
                         else Inr data) of
                     Inl e \<Rightarrow> (Inl e, db)
                   | Inr data' \<Rightarrow> create_document env ''loan'' data' db)))"

text \<open>
  \<^verbatim>\<open>@app.post("/api/loans")\<close> with \<^verbatim>\<open>payload: LoanCreate\<close>: FastAPI validates the
  body against the model and calls \<^verbatim>\<open>create_loan\<close> only with a validated payload.
\<close>

definition post_api_loans ::
  "'o env \<Rightarrow> raw_loan \<Rightarrow> 'o database \<Rightarrow> (exn + string) \<times> 'o database" where
  "post_api_loans env raw db =
     (case validate_loan raw of
        Inl e \<Rightarrow> (Inl e, db)
      | Inr payload \<Rightarrow> create_loan env payload db)"

section \<open>Notions used by the properties\<close>

text \<open>
  An identifier string resolves in a collection when \<^verbatim>\<open>ObjectId\<close> parses it and
  \<^verbatim>\<open>find_one\<close> returns a document for it.
\<close>

definition resolves :: "'o env \<Rightarrow> 'o database \<Rightarrow> string \<Rightarrow> string \<Rightarrow> bool" where
  "resolves env db name ident =
     (case ObjectId env ident of
        None \<Rightarrow> False
      | Some oid \<Rightarrow> (case find_one db name oid of Inr (Some _) \<Rightarrow> True | _ \<Rightarrow> False))"

text \<open>A field of a stored document is populated when it holds a value other than \<^verbatim>\<open>None\<close>.\<close>

definition populated :: "'o doc \<Rightarrow> string \<Rightarrow> bool" where
  "populated d k = (dict_get d k \<noteq> VNone)"

section \<open>A concrete environment, store and payloads\<close>

text \<open>
  Identifiers are the strings of 24 hexadecimal digits, rendered as themselves; the
  store numbers the documents of a collection.
\<close>

definition hex_digit :: "char \<Rightarrow> bool" where
  "hex_digit c = (c \<in> set ''0123456789abcdefABCDEF'')"

definition example_ObjectId :: "string \<Rightarrow> string option" where
  "example_ObjectId s = (if length s = 24 \<and> list_all hex_digit s then Some s else None)"

definition hex_of :: "nat \<Rightarrow> char" where
  "hex_of n = ''0123456789abcdef'' ! n"

definition example_env :: "string env" where
  "example_env =
     \<lparr> ObjectId = example_ObjectId,
       str_oid = (\<lambda>oid. oid),
       new_oid = (\<lambda>ds. ''65f1c0de000000000000'' @
                     [hex_of (length ds div 4096 mod 16), hex_of (length ds div 256 mod 16),
                      hex_of (length ds div 16 mod 16), hex_of (length ds mod 16)]),
       utcnow_date = Date 2024 3 15,
       float_of_str = (\<lambda>s. None) \<rparr>"

text \<open>One customer, a partner with a rate of 5 percent and a partner without a rate.\<close>

definition example_db :: "string database" where
  "example_db =
     \<lparr> reachable = True,
       colls = (\<lambda>name.
         if name = ''customer'' then
           [[(''_id'', VId ''64b7f0a1c2d3e4f5a6b7c8d9''),
             (''first_name'', VStr ''Ada''), (''last_name'', VStr ''Byron'')]]
         else if name = ''partner'' then
           [[(''_id'', VId ''64b7f0a1c2d3e4f5a6b7c8da''),
             (''name'', VStr ''Acme Referrals''), (''commission_rate'', VFloat (Fin 5))],
            [(''_id'', VId ''64b7f0a1c2d3e4f5a6b7c8db''),
             (''name'', VStr ''Legacy Broker'')]]
         else []) \<rparr>"

definition funded_loan :: Loan where
  "funded_loan =
     \<lparr> customer_id = ''64b7f0a1c2d3e4f5a6b7c8d9'',
       partner_id = Some ''64b7f0a1c2d3e4f5a6b7c8da'',
       amount = Fin 1000, status = Funded, application_date = None,
       funded_date = None, commission_amount = None \<rparr>"

definition applied_loan :: Loan where
  "applied_loan =
     \<lparr> customer_id = ''64b7f0a1c2d3e4f5a6b7c8d9'',
       partner_id = None,
       amount = Fin 250, status = Applied, application_date = Some (Date 2024 3 1),
       funded_date = None, commission_amount = Some (Fin (25 / 2)) \<rparr>"

definition applied_raw :: raw_loan where
  "applied_raw =
     \<lparr> raw_customer_id = Some ''64b7f0a1c2d3e4f5a6b7c8d9'',
       raw_partner_id = None,
       raw_amount = Some (Fin 250), raw_status = Some ''applied'',
       raw_application_date = Some (Date 2024 3 1), raw_funded_date = None,
       raw_commission_amount = Some (Fin (25 / 2)) \<rparr>"

definition funded_raw :: raw_loan where
  "funded_raw =
     \<lparr> raw_customer_id = Some ''64b7f0a1c2d3e4f5a6b7c8d9'',
       raw_partner_id = Some ''64b7f0a1c2d3e4f5a6b7c8da'',
       raw_amount = Some (Fin 1000), raw_status = Some ''funded'',
       raw_application_date = None, raw_funded_date = None,
       raw_commission_amount = None \<rparr>"

section \<open>Auxiliary facts\<close>

subsection \<open>Evaluating the float operations\<close>

lemma bits_0: "bits 0 = 0"
  by (simp add: bits.simps)

lemma bits_Suc_0: "bits (Suc 0) = Suc 0"
  by (simp add: bits.simps [of "Suc 0"] bits.simps [of 0])

lemma bits_Bit0: "bits (numeral (Num.Bit0 k)) = Suc (bits (numeral k))"
  by (subst bits.simps) simp

lemma bits_Bit1: "bits (numeral (Num.Bit1 k)) = Suc (bits (numeral k))"
  by (subst bits.simps) simp

lemma floor_rat_numeral_div: "\<lfloor>numeral a / numeral b :: rat\<rfloor> = numeral a div numeral b"
  by (metis floor_divide_of_int_eq of_int_numeral)

lemma floor_rat_one_div: "\<lfloor>1 / numeral b :: rat\<rfloor> = 1 div numeral b"
  by (metis floor_divide_of_int_eq of_int_numeral of_int_1)

lemmas float_eval = bits_0 bits_Suc_0 bits_Bit0 bits_Bit1 floor_rat_numeral_div
  floor_rat_one_div pow2_def floor_log2_def rne_def Let_def

text \<open>The rounding, with the exponent, the unit in the last place and the digits named.\<close>

lemma round_binary64_eval:
  assumes "q \<noteq> 0"
    and "max (floor_log2 \<bar>q\<bar>) (- 1022) = e"
    and "pow2 (e - 52) = ulp"
    and "rne (\<bar>q\<bar> / ulp) = n"
  shows "round_binary64 q =
           (if 1024 \<le> e \<or> (e = 1023 \<and> 2 ^ 53 \<le> n) then (if q < 0 then NInf else PInf)
            else if n = 0 then (if q < 0 then NZero else Fin 0)
            else Fin ((if q < 0 then - 1 else 1) * of_int n * ulp))"
  using assms unfolding round_binary64_def Let_def by simp

lemma round_binary64_5000: "round_binary64 5000 = Fin 5000"
  by (subst round_binary64_eval [of _ 12 "1 / 2 ^ 40" 5497558138880000])
     (simp_all add: float_eval)

lemma round_binary64_50: "round_binary64 50 = Fin 50"
  by (subst round_binary64_eval [of _ 5 "1 / 2 ^ 47" 7036874417766400])
     (simp_all add: float_eval)

lemma round_binary64_15_2: "round_binary64 (15 / 2) = Fin (15 / 2)"
  by (subst round_binary64_eval [of _ 2 "1 / 2 ^ 50" 8444249301319680])
     (simp_all add: float_eval)

lemma round_binary64_3_40:
  "round_binary64 (3 / 40) = Fin (5404319552844595 / 72057594037927936)"
  by (subst round_binary64_eval [of _ "- 4" "1 / 2 ^ 56" 5404319552844595])
     (simp_all add: float_eval)

lemma round_binary64_7_100:
  "round_binary64 (7 / 100) = Fin (1261007895663739 / 18014398509481984)"
  by (subst round_binary64_eval [of _ "- 4" "1 / 2 ^ 56" 5044031582654956])
     (simp_all add: float_eval)

text \<open>\<^verbatim>\<open>round((1000.0 * 5.0) / 100.0, 2)\<close> is \<^verbatim>\<open>50.0\<close>.\<close>

lemma commission_1000_at_5: "py_round2 (fdiv100 (fmul (Fin 1000) (Fin 5))) = Fin 50"
proof -
  have m: "fmul (Fin 1000) (Fin 5) = Fin 5000"
    by (simp add: fmul_def round_binary64_5000)
  have d: "fdiv100 (Fin 5000) = Fin 50"
    by (simp add: fdiv100_def round_binary64_50)
  have "rne (50 * 100) = 5000"
    by (simp add: rne_def)
  then have r: "py_round2 (Fin 50) = Fin 50"
    by (simp add: py_round2_def round_binary64_50)
  show ?thesis by (simp only: m d r)
qed

text \<open>
  \<^verbatim>\<open>round((1.5 * 5.0) / 100.0, 2)\<close> is \<^verbatim>\<open>0.07\<close>: the quotient is the float below
  \<open>3 / 40\<close>, which rounds down, and the result is the float nearest to \<open>7 / 100\<close>.
\<close>

lemma commission_3_2_at_5:
  "py_round2 (fdiv100 (fmul (Fin (3 / 2)) (Fin 5))) =
     Fin (1261007895663739 / 18014398509481984)"
proof -
  have m: "fmul (Fin (3 / 2)) (Fin 5) = Fin (15 / 2)"
    by (simp add: fmul_def round_binary64_15_2)
  have d: "fdiv100 (Fin (15 / 2)) = Fin (5404319552844595 / 72057594037927936)"
    by (simp add: fdiv100_def round_binary64_3_40)
  have "rne (5404319552844595 / 72057594037927936 * 100) = 7"
    by (simp add: float_eval)
  then have r: "py_round2 (Fin (5404319552844595 / 72057594037927936)) =
                Fin (1261007895663739 / 18014398509481984)"
    by (simp add: py_round2_def round_binary64_7_100)
  show ?thesis by (simp only: m d r)
qed

text \<open>With a rate of zero the commission of a finite amount is a zero.\<close>

lemma commission_at_zero_rate:
  assumes "is_finite a" and "fgt0 a"
  shows "py_round2 (fdiv100 (fmul a (Fin 0))) = Fin 0"
  using assms by (cases a) (simp_all add: fmul_def fdiv100_def py_round2_def)

lemma commission_at_zero_rates_same:
  "same_float (py_round2 (fdiv100 (fmul a (Fin 0)))) (py_round2 (fdiv100 (fmul a NZero)))"
  by (cases a) (simp_all add: fmul_def fdiv100_def py_round2_def same_float_def)

lemma commission_of_infinite_amount_at_zero_rate:
  "py_round2 (fdiv100 (fmul PInf (Fin 0))) = NaN"
  by (simp add: fmul_def fdiv100_def py_round2_def)

subsection \<open>The schema and the endpoint\<close>

lemma validate_loan_amount:
  assumes "validate_loan raw = Inr payload"
  shows "fgt0 (amount payload)"
proof -
  from assms obtain c a where e: "field_errors raw = []"
    and a: "raw_amount raw = Some a" and p: "amount payload = a"
    by (auto simp: validate_loan_def split: list.splits option.splits)
  from e a have "fgt0 a"
    by (auto simp: field_errors_def split: option.splits if_splits)
  with p show ?thesis by simp
qed

lemmas example_defs = hex_of_def example_env_def example_db_def example_ObjectId_def hex_digit_def
  create_loan_def check_customer_def check_partner_def try_except_def find_one_def
  model_dump_def dict_get_def opt_val_def funded_block_def fetch_rate_def
  create_document_def Let_def

lemma find_one_Some_id:
  "find_one db name oid = Inr (Some p) \<Longrightarrow> map_of p ''_id'' = Some (VId oid)"
  by (auto simp: find_one_def find_Some_iff split: if_splits)

lemma find_one_Some_nonempty:
  "find_one db name oid = Inr (Some p) \<Longrightarrow> p \<noteq> []"
  by (auto dest: find_one_Some_id)

lemma find_one_reachable:
  "find_one db name oid = Inr r \<Longrightarrow> reachable db"
  by (auto simp: find_one_def split: if_splits)

lemma status_funded_iff:
  "(dict_get (model_dump payload) ''status'' = VStr ''funded'') = (status payload = Funded)"
  by (cases "status payload") (simp_all add: model_dump_def dict_get_def)

lemma dict_get_update_id:
  "k \<noteq> ''_id'' \<Longrightarrow> dict_get (AList.update ''_id'' v d) k = dict_get d k"
  by (simp add: dict_get_def update_conv')

lemma dict_get_model_dump_commission:
  "dict_get (model_dump payload) ''commission_amount'' = opt_val VFloat (commission_amount payload)"
  by (simp add: model_dump_def dict_get_def)

lemma dict_get_model_dump_funded_date:
  "dict_get (model_dump payload) ''funded_date'' = opt_val VDate (funded_date payload)"
  by (simp add: model_dump_def dict_get_def)

lemma dict_get_model_dump_partner:
  "dict_get (model_dump payload) ''partner_id'' = opt_val VStr (partner_id payload)"
  by (simp add: model_dump_def dict_get_def)

text \<open>
  On the dump of a payload the funded block either fails in the rate lookup or gives the
  dump of the payload with the two fields set.
\<close>

lemma funded_block_model_dump:
  "funded_block env db (model_dump payload) =
     (case fetch_rate env db (model_dump payload) of
        Inl e \<Rightarrow> Inl e
      | Inr rate \<Rightarrow>
          Inr (model_dump (payload\<lparr>
                 funded_date := Some (case funded_date payload of
                                        None \<Rightarrow> utcnow_date env | Some d \<Rightarrow> d),
                 commission_amount :=
                   Some (py_round2 (fdiv100 (fmul (amount payload) rate)))\<rparr>)))"
  by (auto simp: funded_block_def model_dump_def dict_get_def opt_val_def Let_def
           split: sum.splits option.splits)

text \<open>The rate lookup reads the payload's \<^verbatim>\<open>partner_id\<close> only.\<close>

lemma fetch_rate_partner:
  assumes "partner_id payload = Some pid" and "pid \<noteq> []"
    and "ObjectId env pid = Some oid"
    and "find_one db ''partner'' oid = Inr (Some p)"
  shows "fetch_rate env db (model_dump payload) =
           (if map_of p ''commission_rate'' \<noteq> None
            then (case py_float env (dict_get p ''commission_rate'') of
                    Inl e \<Rightarrow> Inl e
                  | Inr r \<Rightarrow> Inr (if \<not> is_zero r then r else Fin 0))
            else Inr (Fin 0))"
  using assms find_one_Some_nonempty[OF assms(4)]
  by (auto simp: fetch_rate_def dict_get_model_dump_partner opt_val_def split: sum.splits)

lemma fetch_rate_no_partner:
  assumes "partner_id payload = None \<or> partner_id payload = Some []"
  shows "fetch_rate env db (model_dump payload) = Inr (Fin 0)"
  using assms by (auto simp: fetch_rate_def dict_get_model_dump_partner opt_val_def)

lemma fetch_rate_commission_irrelevant:
  "fetch_rate env db (model_dump (payload\<lparr>commission_amount := c\<rparr>)) =
   fetch_rate env db (model_dump payload)"
  by (simp add: fetch_rate_def dict_get_model_dump_partner)

lemma create_document_Inr:
  assumes "create_document env name data db = (Inr i, db')"
  shows "colls db' name =
           colls db name @ [AList.update ''_id'' (VId (new_oid env (colls db name))) data]"
  using assms by (auto simp: create_document_def Let_def split: if_splits)

text \<open>What a successful call has stored.\<close>

lemma create_loan_Inr:
  assumes "create_loan env payload db = (Inr i, db')"
  shows "\<exists>data'. (if status payload = Funded
                  then funded_block env db (model_dump payload) = Inr data'
                  else data' = model_dump payload) \<and>
                 colls db' ''loan'' =
                   colls db ''loan'' @
                     [AList.update ''_id'' (VId (new_oid env (colls db ''loan''))) data']"
  using assms
  by (auto simp: create_loan_def Let_def status_funded_iff
           split: sum.splits if_splits dest: create_document_Inr)

lemma check_partner_resolved:
  assumes "partner_id payload = Some pid"
    and "ObjectId env pid = Some oid"
    and "find_one db ''partner'' oid = Inr (Some p)"
  shows "check_partner env db payload = Inr ()"
  using assms find_one_Some_nonempty[OF assms(3)]
  by (simp add: check_partner_def try_except_def)

section \<open>The properties\<close>

text \<open>
  C1. A loan created with status "funded" whose \<^verbatim>\<open>partner_id\<close> resolves to a stored
  partner with a \<^verbatim>\<open>commission_rate\<close> of \<open>r\<close> is stored with a
  \<^verbatim>\<open>commission_amount\<close> that is the same number as the float
  \<^verbatim>\<open>round((amount * r) / 100.0, 2)\<close>. It is that very float unless \<open>r\<close> is the
  negative zero, which \<^verbatim>\<open>or 0.0\<close> replaces by the positive one. The empty string is
  no identifier. The instances below have an amount of 1000 and of 1.5 at a rate of 5,
  and store 50.0 and 0.07.
\<close>

theorem funded_commission_from_partner_rate:
  assumes "create_loan env payload db = (Inr i, db')"
    and "status payload = Funded"
    and "partner_id payload = Some pid"
    and "ObjectId env [] = None"
    and "ObjectId env pid = Some oid"
    and "find_one db ''partner'' oid = Inr (Some p)"
    and "map_of p ''commission_rate'' = Some (VFloat r)"
  shows "\<exists>d c. colls db' ''loan'' = colls db ''loan'' @ [d] \<and>
               dict_get d ''commission_amount'' = VFloat c \<and>
               c = py_round2 (fdiv100 (fmul (amount payload) (if r = NZero then Fin 0 else r))) \<and>
               same_float c (py_round2 (fdiv100 (fmul (amount payload) r)))"
proof -
  from assms(4,5) have ne: "pid \<noteq> []" by auto
  have z: "(if \<not> is_zero r then r else Fin 0) = (if r = NZero then Fin 0 else r)"
    by (cases r) simp_all
  have rate: "fetch_rate env db (model_dump payload) = Inr (if r = NZero then Fin 0 else r)"
    using fetch_rate_partner[OF assms(3) ne assms(5,6)] assms(7) z
    by (simp add: dict_get_def)
  have same: "same_float
      (py_round2 (fdiv100 (fmul (amount payload) (if r = NZero then Fin 0 else r))))
      (py_round2 (fdiv100 (fmul (amount payload) r)))"
    using commission_at_zero_rates_same[of "amount payload"]
    by (simp add: same_float_def)
  from create_loan_Inr[OF assms(1)] assms(2) rate
  have "\<exists>d. colls db' ''loan'' = colls db ''loan'' @ [d] \<and>
            dict_get d ''commission_amount'' =
              VFloat (py_round2 (fdiv100 (fmul (amount payload)
                                    (if r = NZero then Fin 0 else r))))"
    by (auto simp: funded_block_model_dump dict_get_update_id dict_get_model_dump_commission
          opt_val_def)
  with same show ?thesis by blast
qed

theorem funded_commission_from_partner_rate_witness:
  "(\<exists>d. colls (snd (create_loan example_env funded_loan example_db)) ''loan'' =
          colls example_db ''loan'' @ [d] \<and>
        dict_get d ''commission_amount'' = VFloat (Fin 50)) \<and>
   (\<exists>d. colls (snd (create_loan example_env (funded_loan\<lparr>amount := Fin (3 / 2)\<rparr>) example_db))
          ''loan'' = colls example_db ''loan'' @ [d] \<and>
        dict_get d ''commission_amount'' =
          VFloat (Fin (1261007895663739 / 18014398509481984))) \<and>
   Fin (1261007895663739 / 18014398509481984) \<noteq> Fin (3 / 40)"
proof -
  have created: "create_loan example_env funded_loan example_db =
     (Inr ''65f1c0de0000000000000000'', snd (create_loan example_env funded_loan example_db))"
    by (simp add: prod_eq_iff example_defs funded_loan_def)
  have created': "create_loan example_env (funded_loan\<lparr>amount := Fin (3 / 2)\<rparr>) example_db =
     (Inr ''65f1c0de0000000000000000'',
      snd (create_loan example_env (funded_loan\<lparr>amount := Fin (3 / 2)\<rparr>) example_db))"
    by (simp add: prod_eq_iff example_defs funded_loan_def)
  have p: "find_one example_db ''partner'' ''64b7f0a1c2d3e4f5a6b7c8da'' =
      Inr (Some [(''_id'', VId ''64b7f0a1c2d3e4f5a6b7c8da''),
             (''name'', VStr ''Acme Referrals''), (''commission_rate'', VFloat (Fin 5))])"
    by (simp add: find_one_def example_db_def)
  have s: "status funded_loan = Funded" "status (funded_loan\<lparr>amount := Fin (3 / 2)\<rparr>) = Funded"
    by (simp_all add: funded_loan_def)
  have pid: "partner_id funded_loan = Some ''64b7f0a1c2d3e4f5a6b7c8da''"
    "partner_id (funded_loan\<lparr>amount := Fin (3 / 2)\<rparr>) = Some ''64b7f0a1c2d3e4f5a6b7c8da''"
    by (simp_all add: funded_loan_def)
  have e: "ObjectId example_env [] = None"
    by (simp add: example_env_def example_ObjectId_def)
  have o: "ObjectId example_env ''64b7f0a1c2d3e4f5a6b7c8da'' = Some ''64b7f0a1c2d3e4f5a6b7c8da''"
    by (simp add: example_env_def example_ObjectId_def hex_digit_def)
  have r: "map_of [(''_id'', VId ''64b7f0a1c2d3e4f5a6b7c8da''),
             (''name'', VStr ''Acme Referrals''), (''commission_rate'', VFloat (Fin 5))]
             ''commission_rate'' = Some (VFloat (Fin 5))"
    by simp
  have a: "amount funded_loan = Fin 1000" "amount (funded_loan\<lparr>amount := Fin (3 / 2)\<rparr>) = Fin (3 / 2)"
    by (simp_all add: funded_loan_def)
  from funded_commission_from_partner_rate[OF created s(1) pid(1) e o p r]
  have one: "\<exists>d. colls (snd (create_loan example_env funded_loan example_db)) ''loan'' =
          colls example_db ''loan'' @ [d] \<and>
        dict_get d ''commission_amount'' = VFloat (Fin 50)"
    by (auto simp: a commission_1000_at_5)
  from funded_commission_from_partner_rate[OF created' s(2) pid(2) e o p r]
  have two: "\<exists>d. colls (snd (create_loan example_env (funded_loan\<lparr>amount := Fin (3 / 2)\<rparr>)
                      example_db)) ''loan'' = colls example_db ''loan'' @ [d] \<and>
        dict_get d ''commission_amount'' =
          VFloat (Fin (1261007895663739 / 18014398509481984))"
    by (auto simp: a commission_3_2_at_5)
  from one two show ?thesis by simp
qed

text \<open>
  C2, as amended. The stored \<^verbatim>\<open>commission_amount\<close> of a created loan is populated
  if and only if the loan was created with status "funded" or the caller supplied a
  \<^verbatim>\<open>commission_amount\<close>.
\<close>

theorem commission_populated_iff_funded_or_supplied:
  assumes "create_loan env payload db = (Inr i, db')"
  shows "\<exists>d. colls db' ''loan'' = colls db ''loan'' @ [d] \<and>
             (populated d ''commission_amount'' \<longleftrightarrow>
                status payload = Funded \<or> commission_amount payload \<noteq> None)"
proof (cases "status payload = Funded")
  case True
  with create_loan_Inr[OF assms(1)] show ?thesis
    by (auto simp: funded_block_model_dump dict_get_update_id dict_get_model_dump_commission
          populated_def opt_val_def split: sum.splits)
next
  case False
  with create_loan_Inr[OF assms(1)] show ?thesis
    by (auto simp: dict_get_update_id dict_get_model_dump_commission
          populated_def opt_val_def split: option.splits)
qed

theorem commission_populated_iff_funded_or_supplied_witness:
  "create_loan example_env (applied_loan\<lparr>commission_amount := None\<rparr>) example_db =
     (Inr ''65f1c0de0000000000000000'',
      snd (create_loan example_env (applied_loan\<lparr>commission_amount := None\<rparr>) example_db)) \<and>
   (\<exists>d. colls (snd (create_loan example_env (applied_loan\<lparr>commission_amount := None\<rparr>)
                      example_db)) ''loan'' = colls example_db ''loan'' @ [d] \<and>
        \<not> populated d ''commission_amount'')"
proof -
  have created:
    "create_loan example_env (applied_loan\<lparr>commission_amount := None\<rparr>) example_db =
     (Inr ''65f1c0de0000000000000000'',
      snd (create_loan example_env (applied_loan\<lparr>commission_amount := None\<rparr>) example_db))"
    by (simp add: prod_eq_iff example_defs applied_loan_def)
  show ?thesis
    using created commission_populated_iff_funded_or_supplied[OF created]
    by (simp add: applied_loan_def)
qed

text \<open>
  C2, as stated, fails: a body with status "applied" and a \<^verbatim>\<open>commission_amount\<close> of
  12.5 validates, the loan is created, and its stored \<^verbatim>\<open>commission_amount\<close> is
  populated.
\<close>

theorem commission_populated_without_funding:
  "validate_loan applied_raw = Inr applied_loan \<and>
   status applied_loan \<noteq> Funded \<and>
   fst (post_api_loans example_env applied_raw example_db) = Inr ''65f1c0de0000000000000000'' \<and>
   populated (last (colls (snd (post_api_loans example_env applied_raw example_db)) ''loan''))
     ''commission_amount''"
proof -
  have v: "validate_loan applied_raw = Inr applied_loan"
    by (simp add: validate_loan_def field_errors_def parse_status_def applied_raw_def
          applied_loan_def)
  have p: "post_api_loans example_env applied_raw example_db =
           create_loan example_env applied_loan example_db"
    by (simp add: post_api_loans_def v)
  have s: "status applied_loan \<noteq> Funded"
    by (simp add: applied_loan_def)
  have i: "fst (create_loan example_env applied_loan example_db) =
           Inr ''65f1c0de0000000000000000''"
    by (simp add: example_defs applied_loan_def)
  have c: "populated (last (colls (snd (create_loan example_env applied_loan example_db))
             ''loan'')) ''commission_amount''"
    by (simp add: example_defs applied_loan_def populated_def)
  from v p s i c show ?thesis by simp
qed

text \<open>
  C3, as amended. A request whose \<^verbatim>\<open>customer_id\<close> is not empty and does not resolve
  to a stored customer fails with HTTP 400, whatever its other fields are, and leaves the
  store as it was.
\<close>

theorem unknown_customer_rejected:
  assumes "customer_id payload \<noteq> []"
    and "\<not> resolves env db ''customer'' (customer_id payload)"
  shows "create_loan env payload db =
           (Inl (HTTPException 400 ''Invalid customer_id format''), db) \<and>
         status_code (fst (create_loan env payload db)) = 400"
  using assms
  by (auto simp: create_loan_def check_customer_def try_except_def resolves_def
           split: sum.splits option.splits if_splits dest: find_one_Some_nonempty)

theorem unknown_customer_rejected_witness:
  "customer_id (funded_loan\<lparr>customer_id := ''64b7f0a1c2d3e4f5a6b7c8ff''\<rparr>) \<noteq> [] \<and>
   \<not> resolves example_env example_db ''customer''
       (customer_id (funded_loan\<lparr>customer_id := ''64b7f0a1c2d3e4f5a6b7c8ff''\<rparr>)) \<and>
   create_loan example_env (funded_loan\<lparr>customer_id := ''64b7f0a1c2d3e4f5a6b7c8ff''\<rparr>)
       example_db =
     (Inl (HTTPException 400 ''Invalid customer_id format''), example_db) \<and>
   status_code (fst (create_loan example_env
       (funded_loan\<lparr>customer_id := ''64b7f0a1c2d3e4f5a6b7c8ff''\<rparr>) example_db)) = 400"
proof -
  have ne: "customer_id (funded_loan\<lparr>customer_id := ''64b7f0a1c2d3e4f5a6b7c8ff''\<rparr>) \<noteq> []"
    by simp
  have nr: "\<not> resolves example_env example_db ''customer''
       (customer_id (funded_loan\<lparr>customer_id := ''64b7f0a1c2d3e4f5a6b7c8ff''\<rparr>))"
    by (simp add: resolves_def example_env_def example_db_def example_ObjectId_def
          hex_digit_def find_one_def)
  from ne nr unknown_customer_rejected[OF ne nr] show ?thesis by simp
qed

text \<open>
  C3, as stated, fails: the empty string is a valid \<^verbatim>\<open>customer_id\<close> for the schema,
  it corresponds to no customer, and the loan is created.
\<close>

theorem empty_customer_id_accepted:
  "validate_loan (applied_raw\<lparr>raw_customer_id := Some []\<rparr>) =
     Inr (applied_loan\<lparr>customer_id := []\<rparr>) \<and>
   \<not> resolves example_env example_db ''customer'' [] \<and>
   fst (post_api_loans example_env (applied_raw\<lparr>raw_customer_id := Some []\<rparr>) example_db) =
     Inr ''65f1c0de0000000000000000''"
proof -
  have v: "validate_loan (applied_raw\<lparr>raw_customer_id := Some []\<rparr>) =
           Inr (applied_loan\<lparr>customer_id := []\<rparr>)"
    by (simp add: validate_loan_def field_errors_def parse_status_def applied_raw_def
          applied_loan_def)
  have nr: "\<not> resolves example_env example_db ''customer'' []"
    by (simp add: resolves_def example_env_def example_ObjectId_def)
  have i: "fst (create_loan example_env (applied_loan\<lparr>customer_id := []\<rparr>) example_db) =
           Inr ''65f1c0de0000000000000000''"
    by (simp add: example_defs applied_loan_def)
  from v nr i show ?thesis by (simp add: post_api_loans_def)
qed

text \<open>
  C4. The code answers a well-formed \<^verbatim>\<open>customer_id\<close> that matches no customer with
  the very message of a malformed one, and likewise for \<^verbatim>\<open>partner_id\<close>: the
  \<^verbatim>\<open>HTTPException\<close> of the not-found branch is raised inside the \<^verbatim>\<open>try\<close> and
  replaced by the handler's.
\<close>

theorem reference_messages_coincide:
  "example_ObjectId ''64b7f0a1c2d3e4f5a6b7c8ff'' = Some ''64b7f0a1c2d3e4f5a6b7c8ff'' \<and>
   example_ObjectId ''not-an-id'' = None \<and>
   fst (create_loan example_env (funded_loan\<lparr>customer_id := ''64b7f0a1c2d3e4f5a6b7c8ff''\<rparr>)
          example_db) = Inl (HTTPException 400 ''Invalid customer_id format'') \<and>
   fst (create_loan example_env (funded_loan\<lparr>customer_id := ''not-an-id''\<rparr>)
          example_db) = Inl (HTTPException 400 ''Invalid customer_id format'') \<and>
   fst (create_loan example_env (funded_loan\<lparr>partner_id := Some ''64b7f0a1c2d3e4f5a6b7c8ff''\<rparr>)
          example_db) = Inl (HTTPException 400 ''Invalid partner_id format'') \<and>
   fst (create_loan example_env (funded_loan\<lparr>partner_id := Some ''not-an-id''\<rparr>)
          example_db) = Inl (HTTPException 400 ''Invalid partner_id format'')"
  by (simp add: example_defs funded_loan_def)

text \<open>
  C5. A loan created with a status other than "funded" is stored with the
  \<^verbatim>\<open>commission_amount\<close> and the \<^verbatim>\<open>funded_date\<close> of the request: the supplied
  value, or \<^verbatim>\<open>None\<close> when the caller omitted the field.
\<close>

theorem non_funded_fields_pass_through:
  assumes "create_loan env payload db = (Inr i, db')"
    and "status payload \<noteq> Funded"
  shows "\<exists>d. colls db' ''loan'' = colls db ''loan'' @ [d] \<and>
             dict_get d ''commission_amount'' = opt_val VFloat (commission_amount payload) \<and>
             dict_get d ''funded_date'' = opt_val VDate (funded_date payload)"
  using create_loan_Inr[OF assms(1)] assms(2)
  by (auto simp: dict_get_update_id dict_get_model_dump_commission
        dict_get_model_dump_funded_date)

theorem non_funded_fields_pass_through_witness:
  "create_loan example_env applied_loan example_db =
     (Inr ''65f1c0de0000000000000000'', snd (create_loan example_env applied_loan example_db)) \<and>
   status applied_loan \<noteq> Funded \<and>
   (\<exists>d. colls (snd (create_loan example_env applied_loan example_db)) ''loan'' =
          colls example_db ''loan'' @ [d] \<and>
        dict_get d ''commission_amount'' = VFloat (Fin (25 / 2)) \<and>
        dict_get d ''funded_date'' = VNone)"
proof -
  have created: "create_loan example_env applied_loan example_db =
     (Inr ''65f1c0de0000000000000000'', snd (create_loan example_env applied_loan example_db))"
    by (simp add: prod_eq_iff example_defs applied_loan_def)
  have s: "status applied_loan \<noteq> Funded"
    by (simp add: applied_loan_def)
  from created s non_funded_fields_pass_through[OF created s] show ?thesis
    by (simp add: applied_loan_def opt_val_def)
qed

text \<open>
  C6. A loan created with status "funded" and a \<^verbatim>\<open>funded_date\<close> supplied by the
  caller is stored with that date.
\<close>

theorem funded_keeps_supplied_date:
  assumes "create_loan env payload db = (Inr i, db')"
    and "status payload = Funded"
    and "funded_date payload = Some fd"
  shows "\<exists>d. colls db' ''loan'' = colls db ''loan'' @ [d] \<and>
             dict_get d ''funded_date'' = VDate fd"
  using create_loan_Inr[OF assms(1)] assms(2,3)
  by (auto simp: funded_block_model_dump dict_get_update_id dict_get_model_dump_funded_date
        opt_val_def split: sum.splits)

theorem funded_keeps_supplied_date_witness:
  "create_loan example_env (funded_loan\<lparr>funded_date := Some (Date 2023 12 31)\<rparr>) example_db =
     (Inr ''65f1c0de0000000000000000'',
      snd (create_loan example_env (funded_loan\<lparr>funded_date := Some (Date 2023 12 31)\<rparr>)
             example_db)) \<and>
   utcnow_date example_env \<noteq> Date 2023 12 31 \<and>
   (\<exists>d. colls (snd (create_loan example_env
                      (funded_loan\<lparr>funded_date := Some (Date 2023 12 31)\<rparr>) example_db))
          ''loan'' = colls example_db ''loan'' @ [d] \<and>
        dict_get d ''funded_date'' = VDate (Date 2023 12 31))"
proof -
  have created:
    "create_loan example_env (funded_loan\<lparr>funded_date := Some (Date 2023 12 31)\<rparr>) example_db =
     (Inr ''65f1c0de0000000000000000'',
      snd (create_loan example_env (funded_loan\<lparr>funded_date := Some (Date 2023 12 31)\<rparr>)
             example_db))"
    by (simp add: prod_eq_iff example_defs funded_loan_def)
  from created funded_keeps_supplied_date[OF created, of "Date 2023 12 31"] show ?thesis
    by (simp add: funded_loan_def example_env_def)
qed


text \<open>
  C7, as amended. A loan created from a validated body with status "funded", no
  \<^verbatim>\<open>partner_id\<close> and a finite amount is stored with a \<^verbatim>\<open>commission_amount\<close> of
  0.0.
\<close>

theorem funded_without_partner_commission_zero:
  assumes "validate_loan raw = Inr payload"
    and "create_loan env payload db = (Inr i, db')"
    and "status payload = Funded"
    and "partner_id payload = None"
    and "is_finite (amount payload)"
  shows "\<exists>d. colls db' ''loan'' = colls db ''loan'' @ [d] \<and>
             dict_get d ''commission_amount'' = VFloat (Fin 0)"
proof -
  have rate: "fetch_rate env db (model_dump payload) = Inr (Fin 0)"
    using fetch_rate_no_partner assms(4) by blast
  have zero: "py_round2 (fdiv100 (fmul (amount payload) (Fin 0))) = Fin 0"
    by (rule commission_at_zero_rate[OF assms(5) validate_loan_amount[OF assms(1)]])
  from create_loan_Inr[OF assms(2)] assms(3) rate
  show ?thesis
    by (auto simp: funded_block_model_dump dict_get_update_id dict_get_model_dump_commission
          opt_val_def zero)
qed

theorem funded_without_partner_commission_zero_witness:
  "validate_loan (funded_raw\<lparr>raw_partner_id := None\<rparr>) = Inr (funded_loan\<lparr>partner_id := None\<rparr>) \<and>
   is_finite (amount (funded_loan\<lparr>partner_id := None\<rparr>)) \<and>
   (\<exists>d. colls (snd (create_loan example_env (funded_loan\<lparr>partner_id := None\<rparr>) example_db))
          ''loan'' = colls example_db ''loan'' @ [d] \<and>
        dict_get d ''commission_amount'' = VFloat (Fin 0))"
proof -
  have v: "validate_loan (funded_raw\<lparr>raw_partner_id := None\<rparr>) =
           Inr (funded_loan\<lparr>partner_id := None\<rparr>)"
    by (simp add: validate_loan_def field_errors_def parse_status_def funded_raw_def
          funded_loan_def)
  have created:
    "create_loan example_env (funded_loan\<lparr>partner_id := None\<rparr>) example_db =
     (Inr ''65f1c0de0000000000000000'',
      snd (create_loan example_env (funded_loan\<lparr>partner_id := None\<rparr>) example_db))"
    by (simp add: prod_eq_iff example_defs funded_loan_def)
  have s: "status (funded_loan\<lparr>partner_id := None\<rparr>) = Funded"
    by (simp add: funded_loan_def)
  have n: "partner_id (funded_loan\<lparr>partner_id := None\<rparr>) = None"
    by simp
  have f: "is_finite (amount (funded_loan\<lparr>partner_id := None\<rparr>))"
    by (simp add: funded_loan_def)
  from v f funded_without_partner_commission_zero[OF v created s n f] show ?thesis
    by simp
qed

text \<open>
  C7, as stated, fails: an infinite amount passes \<^verbatim>\<open>gt=0\<close>, and with no partner the
  loan is created with a \<^verbatim>\<open>commission_amount\<close> that is a NaN, the value of
  \<^verbatim>\<open>round((inf * 0.0) / 100.0, 2)\<close>.
\<close>

theorem infinite_amount_without_partner_stores_nan:
  "validate_loan (funded_raw\<lparr>raw_partner_id := None, raw_amount := Some PInf\<rparr>) =
     Inr (funded_loan\<lparr>partner_id := None, amount := PInf\<rparr>) \<and>
   status (funded_loan\<lparr>partner_id := None, amount := PInf\<rparr>) = Funded \<and>
   fst (create_loan example_env (funded_loan\<lparr>partner_id := None, amount := PInf\<rparr>) example_db) =
     Inr ''65f1c0de0000000000000000'' \<and>
   dict_get (last (colls (snd (create_loan example_env
                 (funded_loan\<lparr>partner_id := None, amount := PInf\<rparr>) example_db)) ''loan''))
     ''commission_amount'' = VFloat NaN"
proof -
  have v: "validate_loan (funded_raw\<lparr>raw_partner_id := None, raw_amount := Some PInf\<rparr>) =
           Inr (funded_loan\<lparr>partner_id := None, amount := PInf\<rparr>)"
    by (simp add: validate_loan_def field_errors_def parse_status_def funded_raw_def
          funded_loan_def)
  have s: "status (funded_loan\<lparr>partner_id := None, amount := PInf\<rparr>) = Funded"
    by (simp add: funded_loan_def)
  have i: "fst (create_loan example_env (funded_loan\<lparr>partner_id := None, amount := PInf\<rparr>)
                  example_db) = Inr ''65f1c0de0000000000000000''"
    by (simp add: example_defs funded_loan_def)
  have c: "dict_get (last (colls (snd (create_loan example_env
                 (funded_loan\<lparr>partner_id := None, amount := PInf\<rparr>) example_db)) ''loan''))
             ''commission_amount'' = VFloat NaN"
    by (simp add: example_defs funded_loan_def commission_of_infinite_amount_at_zero_rate)
  from v s i c show ?thesis by simp
qed

text \<open>
  C8, as amended. When the customer check passes and the \<^verbatim>\<open>partner_id\<close> of a
  validated "funded" payload with a finite amount resolves to a stored partner that has
  no \<^verbatim>\<open>commission_rate\<close>, the call succeeds and the loan is stored with a
  \<^verbatim>\<open>commission_amount\<close> of 0.0.
\<close>

theorem funded_partner_without_rate_succeeds:
  assumes "validate_loan raw = Inr payload"
    and "status payload = Funded"
    and "check_customer env db payload = Inr ()"
    and "partner_id payload = Some pid"
    and "ObjectId env pid = Some oid"
    and "find_one db ''partner'' oid = Inr (Some p)"
    and "map_of p ''commission_rate'' = None"
    and "is_finite (amount payload)"
  shows "\<exists>i db' d. create_loan env payload db = (Inr i, db') \<and>
                  colls db' ''loan'' = colls db ''loan'' @ [d] \<and>
                  dict_get d ''commission_amount'' = VFloat (Fin 0)"
proof -
  have rate: "fetch_rate env db (model_dump payload) = Inr (Fin 0)"
  proof (cases "pid = []")
    case True
    with assms(4) fetch_rate_no_partner show ?thesis by blast
  next
    case False
    from fetch_rate_partner[OF assms(4) False assms(5,6)] assms(7) show ?thesis by simp
  qed
  have zero: "py_round2 (fdiv100 (fmul (amount payload) (Fin 0))) = Fin 0"
    by (rule commission_at_zero_rate[OF assms(8) validate_loan_amount[OF assms(1)]])
  have partner: "check_partner env db payload = Inr ()"
    by (rule check_partner_resolved[OF assms(4,5,6)])
  have up: "reachable db"
    by (rule find_one_reachable[OF assms(6)])
  obtain i db' where created: "create_loan env payload db = (Inr i, db')"
    using assms(2,3) partner rate up
    by (simp add: create_loan_def Let_def status_funded_iff funded_block_model_dump
          create_document_def)
  from create_loan_Inr[OF created] assms(2) rate
  have "\<exists>d. colls db' ''loan'' = colls db ''loan'' @ [d] \<and>
            dict_get d ''commission_amount'' = VFloat (Fin 0)"
    by (auto simp: funded_block_model_dump dict_get_update_id dict_get_model_dump_commission
          opt_val_def zero)
  with created show ?thesis by blast
qed

theorem funded_partner_without_rate_succeeds_witness:
  "validate_loan (funded_raw\<lparr>raw_partner_id := Some ''64b7f0a1c2d3e4f5a6b7c8db''\<rparr>) =
     Inr (funded_loan\<lparr>partner_id := Some ''64b7f0a1c2d3e4f5a6b7c8db''\<rparr>) \<and>
   find_one example_db ''partner'' ''64b7f0a1c2d3e4f5a6b7c8db'' =
     Inr (Some [(''_id'', VId ''64b7f0a1c2d3e4f5a6b7c8db''), (''name'', VStr ''Legacy Broker'')]) \<and>
   (\<exists>i db' d. create_loan example_env
                 (funded_loan\<lparr>partner_id := Some ''64b7f0a1c2d3e4f5a6b7c8db''\<rparr>) example_db =
                 (Inr i, db') \<and>
               colls db' ''loan'' = colls example_db ''loan'' @ [d] \<and>
               dict_get d ''commission_amount'' = VFloat (Fin 0))"
proof -
  have v: "validate_loan (funded_raw\<lparr>raw_partner_id := Some ''64b7f0a1c2d3e4f5a6b7c8db''\<rparr>) =
           Inr (funded_loan\<lparr>partner_id := Some ''64b7f0a1c2d3e4f5a6b7c8db''\<rparr>)"
    by (simp add: validate_loan_def field_errors_def parse_status_def funded_raw_def
          funded_loan_def)
  have c: "check_customer example_env example_db
     (funded_loan\<lparr>partner_id := Some ''64b7f0a1c2d3e4f5a6b7c8db''\<rparr>) = Inr ()"
    by (simp add: check_customer_def try_except_def find_one_def example_env_def example_db_def
          example_ObjectId_def hex_digit_def funded_loan_def)
  have p: "find_one example_db ''partner'' ''64b7f0a1c2d3e4f5a6b7c8db'' =
      Inr (Some [(''_id'', VId ''64b7f0a1c2d3e4f5a6b7c8db''), (''name'', VStr ''Legacy Broker'')])"
    by (simp add: find_one_def example_db_def)
  have s: "status (funded_loan\<lparr>partner_id := Some ''64b7f0a1c2d3e4f5a6b7c8db''\<rparr>) = Funded"
    by (simp add: funded_loan_def)
  have pid: "partner_id (funded_loan\<lparr>partner_id := Some ''64b7f0a1c2d3e4f5a6b7c8db''\<rparr>) =
             Some ''64b7f0a1c2d3e4f5a6b7c8db''"
    by simp
  have o: "ObjectId example_env ''64b7f0a1c2d3e4f5a6b7c8db'' = Some ''64b7f0a1c2d3e4f5a6b7c8db''"
    by (simp add: example_env_def example_ObjectId_def hex_digit_def)
  have r: "map_of [(''_id'', VId ''64b7f0a1c2d3e4f5a6b7c8db''), (''name'', VStr ''Legacy Broker'')]
             ''commission_rate'' = None"
    by simp
  have f: "is_finite (amount (funded_loan\<lparr>partner_id := Some ''64b7f0a1c2d3e4f5a6b7c8db''\<rparr>))"
    by (simp add: funded_loan_def)
  from v p funded_partner_without_rate_succeeds[OF v s c pid o p r f] show ?thesis
    by blast
qed

text \<open>
  C8, as stated, fails in its value: with an infinite amount, which passes \<^verbatim>\<open>gt=0\<close>,
  and a partner that has no \<^verbatim>\<open>commission_rate\<close> the loan is created and its
  \<^verbatim>\<open>commission_amount\<close> is a NaN.
\<close>

theorem infinite_amount_partner_without_rate_stores_nan:
  "validate_loan (funded_raw\<lparr>raw_partner_id := Some ''64b7f0a1c2d3e4f5a6b7c8db'',
                              raw_amount := Some PInf\<rparr>) =
     Inr (funded_loan\<lparr>partner_id := Some ''64b7f0a1c2d3e4f5a6b7c8db'', amount := PInf\<rparr>) \<and>
   map_of [(''_id'', VId ''64b7f0a1c2d3e4f5a6b7c8db''), (''name'', VStr ''Legacy Broker'')]
     ''commission_rate'' = (None :: string pyval option) \<and>
   find_one example_db ''partner'' ''64b7f0a1c2d3e4f5a6b7c8db'' =
     Inr (Some [(''_id'', VId ''64b7f0a1c2d3e4f5a6b7c8db''), (''name'', VStr ''Legacy Broker'')]) \<and>
   fst (create_loan example_env
          (funded_loan\<lparr>partner_id := Some ''64b7f0a1c2d3e4f5a6b7c8db'', amount := PInf\<rparr>)
          example_db) = Inr ''65f1c0de0000000000000000'' \<and>
   dict_get (last (colls (snd (create_loan example_env
                 (funded_loan\<lparr>partner_id := Some ''64b7f0a1c2d3e4f5a6b7c8db'', amount := PInf\<rparr>)
                 example_db)) ''loan''))
     ''commission_amount'' = VFloat NaN"
proof -
  have v: "validate_loan (funded_raw\<lparr>raw_partner_id := Some ''64b7f0a1c2d3e4f5a6b7c8db'',
                              raw_amount := Some PInf\<rparr>) =
     Inr (funded_loan\<lparr>partner_id := Some ''64b7f0a1c2d3e4f5a6b7c8db'', amount := PInf\<rparr>)"
    by (simp add: validate_loan_def field_errors_def parse_status_def funded_raw_def
          funded_loan_def)
  have p: "find_one example_db ''partner'' ''64b7f0a1c2d3e4f5a6b7c8db'' =
      Inr (Some [(''_id'', VId ''64b7f0a1c2d3e4f5a6b7c8db''), (''name'', VStr ''Legacy Broker'')])"
    by (simp add: find_one_def example_db_def)
  have i: "fst (create_loan example_env
          (funded_loan\<lparr>partner_id := Some ''64b7f0a1c2d3e4f5a6b7c8db'', amount := PInf\<rparr>)
          example_db) = Inr ''65f1c0de0000000000000000''"
    by (simp add: example_defs funded_loan_def)
  have c: "dict_get (last (colls (snd (create_loan example_env
                 (funded_loan\<lparr>partner_id := Some ''64b7f0a1c2d3e4f5a6b7c8db'', amount := PInf\<rparr>)
                 example_db)) ''loan''))
             ''commission_amount'' = VFloat NaN"
    by (simp add: example_defs funded_loan_def commission_of_infinite_amount_at_zero_rate)
  from v p i c show ?thesis by simp
qed

text \<open>
  C9. A body whose \<^verbatim>\<open>amount\<close> is not greater than zero (a zero, a negative number,
  the negative infinity or a NaN) is answered with the validation error of the schema,
  which names \<^verbatim>\<open>amount\<close>; \<^verbatim>\<open>create_loan\<close> is not called: the answer is the same
  for every environment and every store, and the store is returned as it was.
\<close>

theorem non_positive_amount_rejected:
  assumes "raw_amount raw = Some a" and "\<not> fgt0 a"
  shows "post_api_loans env raw db = (Inl (RequestValidationError (field_errors raw)), db) \<and>
         ''amount'' \<in> set (field_errors raw) \<and>
         status_code (fst (post_api_loans env raw db)) = 422"
proof -
  have mem: "''amount'' \<in> set (field_errors raw)"
    using assms by (simp add: field_errors_def)
  then have ne: "field_errors raw \<noteq> []" by auto
  have "validate_loan raw = Inl (RequestValidationError (field_errors raw))"
    using ne by (simp add: validate_loan_def split: list.splits option.splits)
  with mem show ?thesis by (simp add: post_api_loans_def)
qed

theorem non_positive_amount_rejected_witness:
  "raw_amount (applied_raw\<lparr>raw_amount := Some (Fin 0)\<rparr>) = Some (Fin 0) \<and>
   \<not> fgt0 (Fin 0) \<and>
   post_api_loans example_env (applied_raw\<lparr>raw_amount := Some (Fin 0)\<rparr>) example_db =
     (Inl (RequestValidationError [''amount'']), example_db) \<and>
   status_code (fst (post_api_loans example_env (applied_raw\<lparr>raw_amount := Some (Fin 0)\<rparr>)
                       example_db)) = 422"
proof -
  have a: "raw_amount (applied_raw\<lparr>raw_amount := Some (Fin 0)\<rparr>) = Some (Fin 0)" by simp
  have z: "\<not> fgt0 (Fin 0)" by simp
  have f: "field_errors (applied_raw\<lparr>raw_amount := Some (Fin 0)\<rparr>) = [''amount'']"
    by (simp add: field_errors_def applied_raw_def parse_status_def)
  from a z f non_positive_amount_rejected[OF a z, of example_env example_db] show ?thesis
    by simp
qed

text \<open>
  C10. For a loan created with status "funded" the \<^verbatim>\<open>commission_amount\<close> of the
  request is ignored: the stored value is the float \<^verbatim>\<open>round((amount * rate) / 100.0, 2)\<close>
  for the rate that the lookup returns, and a request that differs only in its
  \<^verbatim>\<open>commission_amount\<close> has the same outcome. The instance below supplies 999 with
  an amount of 1.5 at a rate of 5, and stores 0.07.
\<close>

theorem funded_overrides_supplied_commission:
  assumes "create_loan env payload db = (Inr i, db')"
    and "status payload = Funded"
  shows "\<exists>rate d. fetch_rate env db (model_dump payload) = Inr rate \<and>
                 colls db' ''loan'' = colls db ''loan'' @ [d] \<and>
                 dict_get d ''commission_amount'' =
                   VFloat (py_round2 (fdiv100 (fmul (amount payload) rate))) \<and>
                 create_loan env (payload\<lparr>commission_amount := c\<rparr>) db = (Inr i, db')"
proof -
  have cc: "check_customer env db (payload\<lparr>commission_amount := c\<rparr>) =
            check_customer env db payload"
    by (simp add: check_customer_def)
  have cp: "check_partner env db (payload\<lparr>commission_amount := c\<rparr>) =
            check_partner env db payload"
    by (simp add: check_partner_def)
  have fb': "funded_block env db (model_dump (payload\<lparr>commission_amount := c\<rparr>)) =
             funded_block env db (model_dump payload)"
    by (cases "fetch_rate env db (model_dump payload)")
       (simp_all add: funded_block_model_dump fetch_rate_commission_irrelevant)
  have same: "create_loan env (payload\<lparr>commission_amount := c\<rparr>) db = create_loan env payload db"
    using assms(2)
    by (auto simp: create_loan_def cc cp fb' Let_def status_funded_iff split: sum.splits)
  from create_loan_Inr[OF assms(1)] assms(2)
  obtain data' where fb: "funded_block env db (model_dump payload) = Inr data'"
    and st: "colls db' ''loan'' = colls db ''loan'' @
               [AList.update ''_id'' (VId (new_oid env (colls db ''loan''))) data']"
    by auto
  from fb obtain rate where rate: "fetch_rate env db (model_dump payload) = Inr rate"
    and d: "data' = model_dump (payload\<lparr>
                 funded_date := Some (case funded_date payload of
                                        None \<Rightarrow> utcnow_date env | Some d \<Rightarrow> d),
                 commission_amount :=
                   Some (py_round2 (fdiv100 (fmul (amount payload) rate)))\<rparr>)"
    by (auto simp: funded_block_model_dump split: sum.splits)
  have "dict_get (AList.update ''_id'' (VId (new_oid env (colls db ''loan''))) data')
          ''commission_amount'' = VFloat (py_round2 (fdiv100 (fmul (amount payload) rate)))"
    by (simp add: d dict_get_update_id dict_get_model_dump_commission opt_val_def)
  with rate st same assms(1) show ?thesis by auto
qed

theorem funded_overrides_supplied_commission_witness:
  "create_loan example_env
       (funded_loan\<lparr>amount := Fin (3 / 2), commission_amount := Some (Fin 999)\<rparr>) example_db =
     (Inr ''65f1c0de0000000000000000'',
      snd (create_loan example_env
             (funded_loan\<lparr>amount := Fin (3 / 2), commission_amount := Some (Fin 999)\<rparr>)
             example_db)) \<and>
   (\<exists>d. colls (snd (create_loan example_env
                      (funded_loan\<lparr>amount := Fin (3 / 2), commission_amount := Some (Fin 999)\<rparr>)
                      example_db)) ''loan'' = colls example_db ''loan'' @ [d] \<and>
        dict_get d ''commission_amount'' =
          VFloat (Fin (1261007895663739 / 18014398509481984)))"
proof -
  have created:
    "create_loan example_env
       (funded_loan\<lparr>amount := Fin (3 / 2), commission_amount := Some (Fin 999)\<rparr>) example_db =
     (Inr ''65f1c0de0000000000000000'',
      snd (create_loan example_env
             (funded_loan\<lparr>amount := Fin (3 / 2), commission_amount := Some (Fin 999)\<rparr>)
             example_db))"
    by (simp add: prod_eq_iff example_defs funded_loan_def)
  have s: "status (funded_loan\<lparr>amount := Fin (3 / 2), commission_amount := Some (Fin 999)\<rparr>) =
           Funded"
    by (simp add: funded_loan_def)
  have rate: "fetch_rate example_env example_db
                (model_dump (funded_loan\<lparr>amount := Fin (3 / 2),
                                          commission_amount := Some (Fin 999)\<rparr>)) = Inr (Fin 5)"
    by (simp add: example_defs funded_loan_def)
  have a: "amount (funded_loan\<lparr>amount := Fin (3 / 2), commission_amount := Some (Fin 999)\<rparr>) =
           Fin (3 / 2)"
    by simp
  from funded_overrides_supplied_commission[OF created s, of None] rate created
  show ?thesis by (auto simp: a commission_3_2_at_5)
qed


end
